theory Spec2Isabelle
  imports Complex_Main "HOL-Library.Word"
begin

section \<open>JavaScript strings\<close>

text \<open>
  A JavaScript string is a sequence of 16-bit code units. The ASCII part of a literal is
  written with \<open>str\<close>; a character outside ASCII is written as its code unit
  (\<open>0xE9\<close> and \<open>0xE8\<close> are e with acute and with grave accent, \<open>0xC9\<close> is
  capital E with acute accent, \<open>0xFEFF\<close> is the byte-order mark).
\<close>

type_synonym jsstring = "16 word list"

definition str :: "string \<Rightarrow> jsstring" where
  "str s = map of_char s"

text \<open>\<open>Array.prototype.join\<close> on an array whose elements are already strings.\<close>

fun join :: "jsstring \<Rightarrow> jsstring list \<Rightarrow> jsstring" where
  "join sep [] = []"
| "join sep [x] = x"
| "join sep (x # y # ys) = x @ sep @ join sep (y # ys)"

text \<open>
  \<open>v || d\<close> for a \<open>v\<close> that is a string, \<open>null\<close> or \<open>undefined\<close>: the empty
  string is falsy as well.
\<close>

fun js_or :: "jsstring option \<Rightarrow> jsstring \<Rightarrow> jsstring" where
  "js_or None d = d"
| "js_or (Some s) d = (if s = [] then d else s)"

text \<open>
  \<open>String.prototype.split\<close> on a one-unit separator, used to read a text as lines
  or a line as fields.
\<close>

fun split_on :: "16 word \<Rightarrow> jsstring \<Rightarrow> jsstring list" where
  "split_on c [] = [ []]"
| "split_on c (x # xs) =
     (if x = c then [] # split_on c xs
      else (case split_on c xs of [] \<Rightarrow> [ [x]] | l # ls \<Rightarrow> (x # l) # ls))"

section \<open>JavaScript numbers\<close>

text \<open>
  A Number is an IEEE 754 double: a finite value (a rational here), an infinity or NaN.
  Negative zero is not told apart from zero: none of the operations below that the
  program uses (\<open>*\<close>, \<open>/\<close> on counts, \<open>toFixed\<close>, \<open>ToString\<close>) prints it differently,
  and a count is never negative.
\<close>

datatype number = Fin rat | PosInf | NegInf | NaN

fun bit_length :: "nat \<Rightarrow> nat" where
  "bit_length n = (if n = 0 then 0 else Suc (bit_length (n div 2)))"

declare bit_length.simps [simp del]

text \<open>\<open>ilog2 x\<close> is the integer \<open>e\<close> with \<open>2 ^ e \<le> x < 2 ^ (e + 1)\<close>, for \<open>x > 0\<close>.\<close>

definition ilog2 :: "rat \<Rightarrow> int" where
  "ilog2 x =
     (if 1 \<le> x then int (bit_length (nat \<lfloor>x\<rfloor>)) - 1
      else - int (bit_length (nat (\<lceil>1 / x\<rceil> - 1))))"

definition round_half_even :: "rat \<Rightarrow> int" where
  "round_half_even m =
     (let f = \<lfloor>m\<rfloor>; r = m - of_int f
      in if r < 1 / 2 then f
         else if 1 / 2 < r then f + 1
         else if even f then f else f + 1)"

text \<open>
  Rounding of a real result to the nearest double, ties to even: 53 significant bits,
  exponents from -1022 (below that the spacing stays \<open>2 ^ -1074\<close>), overflow to infinity.
\<close>

definition fl :: "rat \<Rightarrow> number" where
  "fl x =
     (if x = 0 then Fin 0
      else
        let a = \<bar>x\<bar>;
            e = max (ilog2 a) (- 1022);
            u = 2 powi (e - 52);
            y = of_int (round_half_even (a / u)) * u
        in if 2 powi 1024 \<le> y then (if x < 0 then NegInf else PosInf)
           else Fin (if x < 0 then - y else y))"

text \<open>The operators \<open>*\<close> and \<open>/\<close> of the language.\<close>

fun num_mult :: "number \<Rightarrow> number \<Rightarrow> number" where
  "num_mult NaN _ = NaN"
| "num_mult _ NaN = NaN"
| "num_mult (Fin a) (Fin b) = fl (a * b)"
| "num_mult (Fin a) PosInf = (if a = 0 then NaN else if a < 0 then NegInf else PosInf)"
| "num_mult (Fin a) NegInf = (if a = 0 then NaN else if a < 0 then PosInf else NegInf)"
| "num_mult PosInf (Fin b) = (if b = 0 then NaN else if b < 0 then NegInf else PosInf)"
| "num_mult NegInf (Fin b) = (if b = 0 then NaN else if b < 0 then PosInf else NegInf)"
| "num_mult PosInf PosInf = PosInf"
| "num_mult PosInf NegInf = NegInf"
| "num_mult NegInf PosInf = NegInf"
| "num_mult NegInf NegInf = PosInf"

fun num_div :: "number \<Rightarrow> number \<Rightarrow> number" where
  "num_div NaN _ = NaN"
| "num_div _ NaN = NaN"
| "num_div (Fin a) (Fin b) =
     (if b = 0 then (if a = 0 then NaN else if a < 0 then NegInf else PosInf)
      else fl (a / b))"
| "num_div (Fin a) PosInf = Fin 0"
| "num_div (Fin a) NegInf = Fin 0"
| "num_div PosInf (Fin b) = (if b < 0 then NegInf else PosInf)"
| "num_div NegInf (Fin b) = (if b < 0 then PosInf else NegInf)"
| "num_div PosInf PosInf = NaN"
| "num_div PosInf NegInf = NaN"
| "num_div NegInf PosInf = NaN"
| "num_div NegInf NegInf = NaN"

text \<open>A count held in a Number.\<close>

definition num_of_nat :: "nat \<Rightarrow> number" where
  "num_of_nat n = fl (of_nat n)"

subsection \<open>Number to string\<close>

definition digit :: "nat \<Rightarrow> 16 word" where
  "digit d = of_nat (48 + d)"

text \<open>The decimal digits of a natural number, most significant first.\<close>

fun decimal :: "nat \<Rightarrow> jsstring" where
  "decimal n = (if n < 10 then [digit n] else decimal (n div 10) @ [digit (n mod 10)])"

declare decimal.simps [simp del]

text \<open>
  \<open>Number::toString\<close> writes the shortest digit string \<open>s\<close> (of \<open>k\<close> digits) and the
  decimal exponent \<open>n\<close> for which \<open>s * 10 ^ (n - k)\<close> rounds to the number; among several
  \<open>s\<close> the one closest to the number, and the even one of two equally close. Only
  integer values of at least one are printed by the program through this path, so
  \<open>k \<le> n\<close> here.
\<close>

definition valid_digits :: "rat \<Rightarrow> nat \<Rightarrow> nat \<Rightarrow> nat \<Rightarrow> bool" where
  "valid_digits x n k s \<longleftrightarrow>
     10 ^ (k - 1) \<le> s \<and> s < 10 ^ k \<and> fl (of_nat (s * 10 ^ (n - k))) = Fin x"

definition closer :: "rat \<Rightarrow> nat \<Rightarrow> nat \<Rightarrow> nat \<Rightarrow> nat" where
  "closer x w s t =
     (let ds = \<bar>of_nat (s * w) - x\<bar>; dt = \<bar>of_nat (t * w) - x\<bar>
      in if ds < dt then s else if dt < ds then t else if even s then s else t)"

fun best_digits :: "rat \<Rightarrow> nat \<Rightarrow> nat list \<Rightarrow> nat option" where
  "best_digits x w [] = None"
| "best_digits x w (s # ss) =
     (case best_digits x w ss of None \<Rightarrow> Some s | Some t \<Rightarrow> Some (closer x w s t))"

definition candidates :: "rat \<Rightarrow> nat \<Rightarrow> nat \<Rightarrow> nat list" where
  "candidates x n k =
     (let c = nat \<lfloor>x / of_nat (10 ^ (n - k))\<rfloor>
      in filter (valid_digits x n k) [c - 10 ..< c + 11])"

fun shortest_from :: "rat \<Rightarrow> nat \<Rightarrow> nat \<Rightarrow> nat \<Rightarrow> nat \<times> nat" where
  "shortest_from x n k 0 = (k, nat (round_half_even (x / of_nat (10 ^ (n - k)))))"
| "shortest_from x n k (Suc fuel) =
     (case best_digits x (10 ^ (n - k)) (candidates x n k) of
        Some s \<Rightarrow> (k, s)
      | None \<Rightarrow> shortest_from x n (Suc k) fuel)"

text \<open>
  \<open>shortest x = (n, k, s)\<close>. A double just below a power of ten that the power of ten
  rounds to is printed as that power of ten (\<open>1e+23\<close>).
\<close>

definition shortest :: "rat \<Rightarrow> nat \<times> nat \<times> nat" where
  "shortest x =
     (let d = length (decimal (nat \<lfloor>x\<rfloor>))
      in if fl (of_nat (10 ^ d)) = Fin x then (Suc d, 1, 1)
         else (case shortest_from x d 1 16 of (k, s) \<Rightarrow> (d, k, s)))"

text \<open>
  \<open>Number::toString\<close> of an integer-valued double \<open>x \<ge> 1\<close>: the digits padded with
  zeros up to 21 digits, exponent notation beyond.
\<close>

definition int_value_toString :: "rat \<Rightarrow> jsstring" where
  "int_value_toString x =
     (case shortest x of (n, k, s) \<Rightarrow>
        if n \<le> 21 then decimal s @ replicate (n - k) (digit 0)
        else if k = 1 then decimal s @ str ''e+'' @ decimal (n - 1)
        else take 1 (decimal s) @ str ''.'' @ drop 1 (decimal s) @ str ''e+'' @ decimal (n - 1))"

text \<open>
  A count in a template literal or as an element of a joined array. An integer below
  \<open>2 ^ 53\<close> is held exactly and printed with all its digits.
\<close>

definition nat_toString :: "nat \<Rightarrow> jsstring" where
  "nat_toString n =
     (if n < 9007199254740992 then decimal n
      else (case num_of_nat n of
              Fin x \<Rightarrow> int_value_toString x
            | _ \<Rightarrow> str ''Infinity''))"

text \<open>\<open>Number.prototype.toFixed(f)\<close>, for \<open>0 \<le> f \<le> 100\<close>.\<close>

definition fixed_digits :: "nat \<Rightarrow> rat \<Rightarrow> jsstring" where
  "fixed_digits f a =
     (let n = nat \<lfloor>a * 10 ^ f + 1 / 2\<rfloor>;
          m = (if n = 0 then str ''0'' else decimal n);
          m = (if length m \<le> f then replicate (f + 1 - length m) (digit 0) @ m else m);
          k = length m
      in if f = 0 then m else take (k - f) m @ str ''.'' @ drop (k - f) m)"

fun toFixed :: "nat \<Rightarrow> number \<Rightarrow> jsstring" where
  "toFixed f NaN = str ''NaN''"
| "toFixed f PosInf = str ''Infinity''"
| "toFixed f NegInf = str ''-Infinity''"
| "toFixed f (Fin x) =
     (let s = (if x < 0 then str ''-'' else []); a = \<bar>x\<bar>
      in if 10 ^ 21 \<le> a then s @ int_value_toString a
         else s @ fixed_digits f a)"

section \<open>The analysis report\<close>

text \<open>
  The report is what \<open>analyze\<close> returns to the page, with the fields the page reads.
  A count is a non-negative integer held in a Number; \<open>confidence\<close> is a Number;
  \<open>min_value\<close>, \<open>max_value\<close> and \<open>sample_size\<close> are \<open>null\<close> (or missing) when
  absent.
\<close>

record type_details =
  confidence :: number
  subtypes :: "jsstring list"
  format_examples :: "jsstring list"

record column_report =
  name :: jsstring
  type_name :: jsstring
  type_details :: type_details
  total_count :: nat
  analyzed_count :: nat
  unique_values :: nat
  null_count :: nat
  min_value :: "jsstring option"
  max_value :: "jsstring option"
  min_length :: nat
  max_length :: nat

record analysis_report =
  row_count :: nat
  column_count :: nat
  sample_size :: "nat option"
  columns :: "column_report list"

section \<open>Formatting helpers of the page\<close>

definition labels :: "(jsstring \<times> jsstring) list" where
  "labels =
     [(str ''integer'', str ''Entier''),
      (str ''float'', str ''D'' @ [0xE9] @ str ''cimal''),
      (str ''boolean'', str ''Bool'' @ [0xE9] @ str ''en''),
      (str ''date'', str ''Date''),
      (str ''datetime'', str ''Date et heure''),
      (str ''time'', str ''Heure''),
      (str ''email'', str ''Email''),
      (str ''url'', str ''URL''),
      (str ''ip'', str ''Adresse IP''),
      (str ''string'', str ''Texte''),
      (str ''null'', str ''Nul'')]"

text \<open>
  \<open>labels[type] || type\<close>. The argument is a type name of the engine; the property
  names every object inherits (\<open>constructor\<close>, \<open>toString\<close>, ...) are not among them and
  are treated here as any unknown key.
\<close>

definition getTypeLabel :: "jsstring \<Rightarrow> jsstring" where
  "getTypeLabel t = js_or (map_of labels t) t"

definition formatConfidence :: "number \<Rightarrow> jsstring" where
  "formatConfidence c = toFixed 1 (num_mult c (Fin 100)) @ str ''%''"

text \<open>
  \<open>formatAnalyzedValues\<close>: \<open>analyzed === total\<close> compares two counts; the division and
  the multiplication are those of Numbers, and are reached only when the counts differ.
\<close>

definition formatAnalyzedValues :: "nat \<Rightarrow> nat \<Rightarrow> jsstring" where
  "formatAnalyzedValues analyzed total' =
     (if analyzed = total' then nat_toString analyzed @ str '' (100%)''
      else
        let percentage =
              toFixed 1 (num_mult (num_div (num_of_nat analyzed) (num_of_nat total')) (Fin 100))
        in nat_toString analyzed @ str '' ('' @ percentage @ str ''%)'')"

section \<open>Export of the report\<close>

definition csv_headers :: "jsstring list" where
  "csv_headers =
     [str ''Colonne'',
      str ''Type'',
      str ''Confiance'',
      str ''Valeurs analys'' @ [0xE9] @ str ''es'',
      str ''Sous-types'',
      str ''Exemples'',
      str ''Valeurs totales'',
      str ''Valeurs uniques'',
      str ''Valeurs nulles'',
      str ''Min'',
      str ''Max'',
      str ''Longueur Min'',
      str ''Longueur Max'']"

text \<open>The array of one column's cells, each element as \<open>join\<close> writes it.\<close>

definition csv_cells :: "column_report \<Rightarrow> jsstring list" where
  "csv_cells stats =
     [name stats,
      getTypeLabel (type_name stats),
      formatConfidence (confidence (type_details stats)),
      formatAnalyzedValues (analyzed_count stats) (total_count stats),
      join (str '', '') (map getTypeLabel (subtypes (type_details stats))),
      join (str '', '') (format_examples (type_details stats)),
      nat_toString (total_count stats),
      nat_toString (unique_values stats),
      nat_toString (null_count stats),
      js_or (min_value stats) [],
      js_or (max_value stats) [],
      nat_toString (min_length stats),
      nat_toString (max_length stats)]"

definition csv_row :: "column_report \<Rightarrow> jsstring" where
  "csv_row stats = join (str '';'') (csv_cells stats)"

definition exportToCSV :: "analysis_report \<Rightarrow> jsstring" where
  "exportToCSV analysis =
     (let headers = join (str '';'') csv_headers;
          rows = map csv_row (columns analysis)
      in [0xFEFF] @ join [0x0A] (headers # rows))"

section \<open>Rendering of the report\<close>

definition nl :: jsstring where
  "nl = [0x0A]"

text \<open>
  The texts of the file size, of the elapsed time and of the speed come from the clock
  and from \<open>Math.log\<close>; the rendering takes them as given.
\<close>

record summary_texts =
  size_text :: jsstring
  time_text :: jsstring
  speed_text :: jsstring

text \<open>
  \<open>analysis.sample_size ? ... : ...\<close>: \<open>null\<close> is falsy, and so is the number zero.
\<close>

definition modeText :: "analysis_report \<Rightarrow> jsstring" where
  "modeText analysis =
     (case sample_size analysis of
        None \<Rightarrow> str ''Analyse compl'' @ [0xE8] @ str ''te''
      | Some n \<Rightarrow>
          if n = 0 then str ''Analyse compl'' @ [0xE8] @ str ''te''
          else [0xC9] @ str ''chantillonnage ('' @ nat_toString n @ str '' valeurs max)'')"

definition subtypesHtml :: "column_report \<Rightarrow> jsstring" where
  "subtypesHtml stats = join (str '', '') (map getTypeLabel (subtypes (type_details stats)))"

definition examplesHtml :: "column_report \<Rightarrow> jsstring" where
  "examplesHtml stats = join (str '', '') (take 3 (format_examples (type_details stats)))"

definition html_head :: \<open>summary_texts \<Rightarrow> analysis_report \<Rightarrow> jsstring\<close> where
  \<open>html_head texts analysis =
     concat
      [nl,
       str ''        <div class="results">'' @ nl,
       str ''            <div class="actions">'' @ nl,
       str ''                <button id="downloadButton" class="download-btn">'' @ nl,
       str ''                    T'' @ [0xE9] @ str ''l'' @ [0xE9] @ str ''charger l'analyse en CSV'' @ nl,
       str ''                </button>'' @ nl,
       str ''            </div>'' @ nl,
       str ''            <h2>R'' @ [0xE9] @ str ''sum'' @ [0xE9] @ str ''</h2>'' @ nl,
       str ''            <p>Nombre de lignes: '' @ nat_toString (row_count analysis) @ str ''</p>'' @ nl,
       str ''            <p>Nombre de colonnes: '' @ nat_toString (column_count analysis) @ str ''</p>'' @ nl,
       str ''            <p>Taille du fichier: '' @ size_text texts @ str ''</p>'' @ nl,
       str ''            <p class="execution-time">Temps d'analyse: '' @ time_text texts @ str ''</p>'' @ nl,
       str ''            <p>Vitesse de traitement: '' @ speed_text texts @ str ''/s</p>'' @ nl,
       str ''            <p>Mode d'analyse: '' @ modeText analysis @ str ''</p>'' @ nl,
       str ''            '' @ nl,
       str ''            <h2>Analyse des colonnes</h2>'' @ nl,
       str ''            <table>'' @ nl,
       str ''                <thead>'' @ nl,
       str ''                    <tr>'' @ nl,
       str ''                        <th>Colonne</th>'' @ nl,
       str ''                        <th>Type</th>'' @ nl,
       str ''                        <th>Confiance</th>'' @ nl,
       str ''                        <th>Valeurs analys'' @ [0xE9] @ str ''es</th>'' @ nl,
       str ''                        <th>Sous-types</th>'' @ nl,
       str ''                        <th>Exemples</th>'' @ nl,
       str ''                        <th>Valeurs totales</th>'' @ nl,
       str ''                        <th>Valeurs uniques</th>'' @ nl,
       str ''                        <th>Valeurs nulles</th>'' @ nl,
       str ''                        <th>Min</th>'' @ nl,
       str ''                        <th>Max</th>'' @ nl,
       str ''                        <th>Longueur Min</th>'' @ nl,
       str ''                        <th>Longueur Max</th>'' @ nl,
       str ''                    </tr>'' @ nl,
       str ''                </thead>'' @ nl,
       str ''                <tbody>'' @ nl,
       str ''    '']\<close>

text \<open>The contents of the thirteen cells of one table row, in the order of the template.\<close>

definition html_cells :: \<open>column_report \<Rightarrow> jsstring list\<close> where
  \<open>html_cells stats =
     [name stats,
      getTypeLabel (type_name stats),
      formatConfidence (confidence (type_details stats)),
      formatAnalyzedValues (analyzed_count stats) (total_count stats),
      subtypesHtml stats,
      examplesHtml stats,
      nat_toString (total_count stats),
      nat_toString (unique_values stats),
      nat_toString (null_count stats),
      js_or (min_value stats) (str ''-''),
      js_or (max_value stats) (str ''-''),
      nat_toString (min_length stats),
      nat_toString (max_length stats)]\<close>

definition td :: \<open>jsstring \<Rightarrow> jsstring\<close> where
  \<open>td x = str ''                <td>'' @ x @ str ''</td>'' @ nl\<close>

definition html_row :: \<open>column_report \<Rightarrow> jsstring\<close> where
  \<open>html_row stats =
     concat
      [nl,
       str ''            <tr>'' @ nl,
       concat (map td (html_cells stats)),
       str ''            </tr>'' @ nl,
       str ''        '']\<close>

definition html_tail :: \<open>jsstring\<close> where
  \<open>html_tail =
     concat
      [nl,
       str ''                </tbody>'' @ nl,
       str ''            </table>'' @ nl,
       str ''        </div>'' @ nl,
       str ''    '']\<close>

text \<open>The markup that \<open>displayResults\<close> builds and assigns to the results area.\<close>

definition results_html :: "summary_texts \<Rightarrow> analysis_report \<Rightarrow> jsstring" where
  "results_html texts analysis =
     foldl (\<lambda>html stats. html @ html_row stats) (html_head texts analysis) (columns analysis)
       @ html_tail"

section \<open>The analyzer objects of the WebAssembly module\<close>

text \<open>
  Modelled from the spec: the classes \<open>AnalyzerConfig\<close> and \<open>CSVAnalyzer\<close> come from
  the compiled module, which is not among the sources. The spec gives them as: a
  configuration object with one recognized option, \<open>sample_size: integer | null\<close>
  (null or absent means unbounded), an analyzer constructed from a configuration, and
  \<open>analyze(rawText)\<close>, which returns a report or fails with a classified failure.

  A configuration object lives in a store, at an address, and holds the value last
  assigned to its \<open>sample_size\<close>. An analyzer remembers the address of the configuration
  it was constructed from and carries the state of its instance; what an instance is and
  what \<open>analyze\<close> computes are parameters (\<open>engine\<close>).
\<close>

datatype sample_setting = JsNull | JsNumber number

text \<open>
  A thrown value, as the \<open>catch\<close> block reads it: its \<open>message\<close> property, or none (a
  thrown string has none, and the template then prints \<open>undefined\<close>).
\<close>

datatype thrown = Thrown "jsstring option"

record 'i engine =
  construct :: "sample_setting \<Rightarrow> 'i"
  analyze :: "'i \<Rightarrow> jsstring \<Rightarrow> (thrown + analysis_report) \<times> 'i"

record 'i csv_analyzer =
  object_id :: nat
  config_of :: nat
  instance_state :: 'i

section \<open>\<open>parseInt\<close>\<close>

text \<open>
  \<open>parseInt(string)\<close> without a radix: leading white space is skipped, then an optional
  sign, then \<open>0x\<close> or \<open>0X\<close> selects radix 16, and the longest run of digits is read; no
  digit gives NaN.
\<close>

definition is_space :: "16 word \<Rightarrow> bool" where
  "is_space c \<longleftrightarrow>
     c \<in> {0x09, 0x0A, 0x0B, 0x0C, 0x0D, 0x20, 0xA0, 0x1680, 0x2028, 0x2029, 0x202F, 0x205F,
          0x3000, 0xFEFF}
     \<or> (0x2000 \<le> c \<and> c \<le> 0x200A)"

definition digit_value :: "16 word \<Rightarrow> nat option" where
  "digit_value c =
     (if 0x30 \<le> c \<and> c \<le> 0x39 then Some (unat c - 0x30)
      else if 0x61 \<le> c \<and> c \<le> 0x7A then Some (unat c - 0x61 + 10)
      else if 0x41 \<le> c \<and> c \<le> 0x5A then Some (unat c - 0x41 + 10)
      else None)"

definition is_digit :: "nat \<Rightarrow> 16 word \<Rightarrow> bool" where
  "is_digit r c = (case digit_value c of None \<Rightarrow> False | Some d \<Rightarrow> d < r)"

definition digits_value :: "nat \<Rightarrow> jsstring \<Rightarrow> nat" where
  "digits_value r z = foldl (\<lambda>a c. a * r + (case digit_value c of None \<Rightarrow> 0 | Some d \<Rightarrow> d)) 0 z"

definition parseInt :: "jsstring \<Rightarrow> number" where
  "parseInt string =
     (let s = dropWhile is_space string;
          negative = (take 1 s = str ''-'');
          s = (if take 1 s = str ''-'' \<or> take 1 s = str ''+'' then drop 1 s else s);
          hex = (take 2 s = str ''0x'' \<or> take 2 s = str ''0X'');
          s = (if hex then drop 2 s else s);
          r = (if hex then 16 else 10);
          z = takeWhile (is_digit r) s
      in if z = [] then NaN
         else if negative then fl (- of_nat (digits_value r z))
         else fl (of_nat (digits_value r z)))"

section \<open>The page\<close>

text \<open>
  A selected file: its name, its size, and what \<open>file.text()\<close> settles to (the content,
  or a rejection).
\<close>

record js_file =
  file_name :: jsstring
  file_size :: nat
  file_text :: "thrown + jsstring"

text \<open>
  The state of the page: the global variable \<open>analyzer\<close>, the store of configuration
  objects, and the properties of the elements that the handlers read and write.
  \<open>download\<close> is the report that the listener of the download button exports, while
  that button is in the results area. \<open>pending\<close> holds the files of the clicks that wait
  at \<open>await file.text()\<close>, and \<open>saved\<close> the files handed to the browser for saving.
\<close>

record 'i page =
  wasm_ready :: bool
  configs :: "nat \<Rightarrow> sample_setting option"
  next_object :: nat
  analyzer :: "'i csv_analyzer option"
  toggle_checked :: bool
  sample_value :: jsstring
  sample_disabled :: bool
  selected_file :: "js_file option"
  file_info_text :: jsstring
  file_info_display :: jsstring
  analyze_disabled :: bool
  results :: jsstring
  download :: "analysis_report option"
  pending :: "js_file list"
  saved :: "(jsstring \<times> jsstring) list"

text \<open>
  Modelled from the spec: what the constructors of the two classes do is not in the
  sources. A new configuration has no \<open>sample_size\<close> (null, "absent"); construction
  does not fail, the failures of the spec are those of \<open>analyze\<close>. The three
  definitions are \<open>new AnalyzerConfig()\<close>, the assignment \<open>config.sample_size = v\<close> and
  \<open>analyzer = new CSVAnalyzer(config)\<close>, which the handlers use in this order.
\<close>

definition new_config :: "'i page \<Rightarrow> nat \<times> 'i page" where
  "new_config s =
     (next_object s,
      s\<lparr>configs := (configs s)(next_object s \<mapsto> JsNull), next_object := Suc (next_object s)\<rparr>)"

definition set_sample_size :: "nat \<Rightarrow> sample_setting \<Rightarrow> 'i page \<Rightarrow> 'i page" where
  "set_sample_size config v s = s\<lparr>configs := (configs s)(config \<mapsto> v)\<rparr>"

definition new_analyzer :: "'i engine \<Rightarrow> nat \<Rightarrow> 'i page \<Rightarrow> 'i page" where
  "new_analyzer eng config s =
     s\<lparr>analyzer := Some \<lparr>object_id = next_object s, config_of = config,
                          instance_state =
                            construct eng (case configs s config of None \<Rightarrow> JsNull | Some v \<Rightarrow> v)\<rparr>,
       next_object := Suc (next_object s)\<rparr>"

text \<open>
  \<open>initializeWasm\<close>. \<open>ok\<close> tells whether \<open>await init()\<close> succeeded; when it throws, the
  \<open>catch\<close> block logs the error and \<open>analyzer\<close> stays null.
\<close>

definition initializeWasm :: "'i engine \<Rightarrow> bool \<Rightarrow> 'i page \<Rightarrow> 'i page" where
  "initializeWasm eng ok s =
     (if ok then
        let s = s\<lparr>wasm_ready := True\<rparr>;
            (config, s) = new_config s;
            s = set_sample_size config JsNull s
        in new_analyzer eng config s
      else s)"

text \<open>
  \<open>setupUI\<close> inserts the sampling controls: the check box unchecked, the number field
  with the value 1000 and disabled. The handlers it registers are the cases of \<open>step\<close>.
\<close>

definition setupUI :: "'i page \<Rightarrow> 'i page" where
  "setupUI s = s\<lparr>toggle_checked := False, sample_value := str ''1000'', sample_disabled := True\<rparr>"

text \<open>
  The page when the document is loaded. What the document itself fixes (the state of the
  analyze button, the contents of the results area and of the file information) is not
  in the sources and is given by \<open>doc\<close>.
\<close>

definition loaded :: "'i page \<Rightarrow> 'i page" where
  "loaded doc =
     doc\<lparr>wasm_ready := False, configs := Map.empty, next_object := 0, analyzer := None,
         download := None, pending := [], saved := []\<rparr>"

definition start :: "'i engine \<Rightarrow> bool \<Rightarrow> 'i page \<Rightarrow> 'i page" where
  "start eng ok doc = setupUI (initializeWasm eng ok (loaded doc))"

text \<open>
  The \<open>change\<close> handler of the check box; the box has just been flipped. Before the
  module is initialized no object of its classes can be made: \<open>new AnalyzerConfig()\<close>
  throws and the handler ends there.
\<close>

definition toggle_change :: "'i engine \<Rightarrow> 'i page \<Rightarrow> 'i page" where
  "toggle_change eng s =
     (let s = s\<lparr>toggle_checked := \<not> toggle_checked s\<rparr>;
          s = s\<lparr>sample_disabled := \<not> toggle_checked s\<rparr>
      in if \<not> wasm_ready s then s
         else
           let (config, s) = new_config s;
               s = (if toggle_checked s
                    then set_sample_size config (JsNumber (parseInt (sample_value s))) s
                    else set_sample_size config JsNull s)
           in new_analyzer eng config s)"

text \<open>The \<open>change\<close> handler of the number field; the field now holds \<open>v\<close>.\<close>

definition sample_size_change :: "'i engine \<Rightarrow> jsstring \<Rightarrow> 'i page \<Rightarrow> 'i page" where
  "sample_size_change eng v s =
     (let s = s\<lparr>sample_value := v\<rparr>
      in if toggle_checked s then
           if \<not> wasm_ready s then s
           else
             let (config, s) = new_config s;
                 s = set_sample_size config (JsNumber (parseInt v)) s
             in new_analyzer eng config s
         else s)"

text \<open>The \<open>change\<close> handler of the file input; the input now holds the selection \<open>f\<close>.\<close>

definition file_change :: "js_file option \<Rightarrow> 'i page \<Rightarrow> 'i page" where
  \<open>file_change f s =
     (let s = s\<lparr>selected_file := f\<rparr>
      in case f of
           None \<Rightarrow> s
         | Some file \<Rightarrow>
             s\<lparr>file_info_text := str ''Fichier s'' @ [0xE9] @ str ''lectionn'' @ [0xE9] @ str '' : ''
                                  @ file_name file,
               file_info_display := str ''block'',
               analyze_disabled := False\<rparr>)\<close>

definition loading_html :: jsstring where
  \<open>loading_html = str ''<div class="loading">Analyse en cours...</div>''\<close>

definition message_text :: "thrown \<Rightarrow> jsstring" where
  "message_text e = (case e of Thrown None \<Rightarrow> str ''undefined'' | Thrown (Some m) \<Rightarrow> m)"

definition error_html :: "thrown \<Rightarrow> jsstring" where
  \<open>error_html error =
     str ''<div class="error">Erreur lors de l'analyse: '' @ message_text error @ str ''</div>''\<close>

text \<open>
  The \<open>click\<close> handler of the analyze button, up to \<open>await file.text()\<close>: nothing happens
  without a file or without an analyzer; otherwise the button is disabled and the results
  area shows the loading message (which removes a download button shown before).
\<close>

definition analyze_click :: "'i page \<Rightarrow> 'i page" where
  "analyze_click s =
     (case selected_file s of
        None \<Rightarrow> s
      | Some file \<Rightarrow>
          (case analyzer s of
             None \<Rightarrow> s
           | Some _ \<Rightarrow>
               s\<lparr>analyze_disabled := True, results := loading_html, download := None,
                 pending := pending s @ [file]\<rparr>))"

text \<open>
  \<open>displayResults\<close>: the markup goes to the results area and the download button in it
  gets a listener that exports this report.
\<close>

definition displayResults :: "summary_texts \<Rightarrow> analysis_report \<Rightarrow> 'i page \<Rightarrow> 'i page" where
  "displayResults texts analysis s =
     s\<lparr>results := results_html texts analysis, download := Some analysis\<rparr>"

definition show_error :: "thrown \<Rightarrow> 'i page \<Rightarrow> 'i page" where
  "show_error error s = s\<lparr>results := error_html error, download := None\<rparr>"

text \<open>
  What reading \<open>analyze\<close> of a null \<open>analyzer\<close> throws (the message is the engine's).
  It cannot happen: a click waits only when there is an analyzer, and no handler sets
  the variable back to null.
\<close>

definition null_analyzer_error :: thrown where
  \<open>null_analyzer_error =
     Thrown (Some (str ''Cannot read properties of null (reading 'analyze')''))\<close>

text \<open>
  The rest of the \<open>click\<close> handler, when the text of the \<open>i\<close>-th waiting file settles:
  the \<open>try\<close> block goes on with \<open>analyzer.analyze(content)\<close> and \<open>displayResults\<close>, the
  \<open>catch\<close> block shows the message of whatever was thrown, and \<open>finally\<close> enables the
  button. The variable \<open>analyzer\<close> is read at this moment.
\<close>

definition text_settled :: "'i engine \<Rightarrow> nat \<Rightarrow> summary_texts \<Rightarrow> 'i page \<Rightarrow> 'i page" where
  "text_settled eng i texts s =
     (if i < length (pending s) then
        let file = pending s ! i;
            s = s\<lparr>pending := take i (pending s) @ drop (Suc i) (pending s)\<rparr>;
            s = (case file_text file of
                   Inl error \<Rightarrow> show_error error s
                 | Inr content \<Rightarrow>
                     (case analyzer s of
                        None \<Rightarrow> show_error null_analyzer_error s
                      | Some a \<Rightarrow>
                          (case analyze eng (instance_state a) content of
                             (Inl error, inst) \<Rightarrow>
                               show_error error (s\<lparr>analyzer := Some (a\<lparr>instance_state := inst\<rparr>)\<rparr>)
                           | (Inr analysis, inst) \<Rightarrow>
                               displayResults texts analysis
                                 (s\<lparr>analyzer := Some (a\<lparr>instance_state := inst\<rparr>)\<rparr>))))
        in s\<lparr>analyze_disabled := False\<rparr>
      else s)"

text \<open>
  \<open>downloadCSV\<close> hands the content to the browser, to be saved under the file name; the
  listener of the download button calls it with the export of its report.
\<close>

definition downloadCSV :: "jsstring \<Rightarrow> jsstring \<Rightarrow> 'i page \<Rightarrow> 'i page" where
  "downloadCSV csvContent fileName s = s\<lparr>saved := saved s @ [(fileName, csvContent)]\<rparr>"

definition download_click :: "'i page \<Rightarrow> 'i page" where
  "download_click s =
     (case download s of
        None \<Rightarrow> s
      | Some analysis \<Rightarrow> downloadCSV (exportToCSV analysis) (str ''analyse_colonnes.csv'') s)"

datatype event =
    ToggleChange
  | SampleSizeChange jsstring
  | FileChange "js_file option"
  | AnalyzeClick
  | TextSettled nat summary_texts
  | DownloadClick

fun step :: "'i engine \<Rightarrow> 'i page \<Rightarrow> event \<Rightarrow> 'i page" where
  "step eng s ToggleChange = toggle_change eng s"
| "step eng s (SampleSizeChange v) = sample_size_change eng v s"
| "step eng s (FileChange f) = file_change f s"
| "step eng s AnalyzeClick = analyze_click s"
| "step eng s (TextSettled i texts) = text_settled eng i texts s"
| "step eng s DownloadClick = download_click s"

definition run :: "'i engine \<Rightarrow> 'i page \<Rightarrow> event list \<Rightarrow> 'i page" where
  "run eng s es = foldl (step eng) s es"

section \<open>The analysis engine\<close>

text \<open>
  Modelled from the spec: the engine (\<open>wasm/src/lib.rs\<close>) is not among the sources. The
  definitions of this section follow the spec's sections 3, 4 and 7: delimiter detection
  on the first five raw lines, the tokenizer with quoted fields, the sampling cap, the
  column accumulator, the resolution of the dominant type and the three error kinds.
  The spec leaves the fixed-format recognizers of the nine types and the order of the
  values under a type to the implementer; they are parameters (\<open>recognizers\<close>).
\<close>

datatype semantic_type =
  Integer | Float | Boolean | Date | DateTime | Time | Email | Url | Ip | String | Null

datatype analysis_error = EmptyInputError | MalformedQuotingError | InvalidConfigurationError

record recognizers =
  matches :: "semantic_type \<Rightarrow> jsstring \<Rightarrow> bool"
  before :: "semantic_type \<Rightarrow> jsstring \<Rightarrow> jsstring \<Rightarrow> bool"

text \<open>The names under which the page knows the types (the keys of \<open>labels\<close>).\<close>

fun type_key :: "semantic_type \<Rightarrow> jsstring" where
  "type_key Integer = str ''integer''"
| "type_key Float = str ''float''"
| "type_key Boolean = str ''boolean''"
| "type_key Date = str ''date''"
| "type_key DateTime = str ''datetime''"
| "type_key Time = str ''time''"
| "type_key Email = str ''email''"
| "type_key Url = str ''url''"
| "type_key Ip = str ''ip''"
| "type_key String = str ''string''"
| "type_key Null = str ''null''"

subsection \<open>Delimiter detector\<close>

text \<open>
  Modelled from the spec: section 4.1. The raw lines of a text; a final line feed does
  not begin a line.
\<close>

definition raw_lines :: "jsstring \<Rightarrow> jsstring list" where
  "raw_lines text =
     (let ls = split_on 0x0A text in if last ls = [] then butlast ls else ls)"

text \<open>
  A candidate scores when it splits every sampled line into the same number of fields,
  more than one; \<open>consistent_count\<close> is that number, or 0.
\<close>

definition consistent_count :: "jsstring list \<Rightarrow> 16 word \<Rightarrow> nat" where
  "consistent_count ls c =
     (case map (\<lambda>l. length (split_on c l)) ls of
        [] \<Rightarrow> 0
      | n # ns \<Rightarrow> if 1 < n \<and> list_all (\<lambda>m. m = n) ns then n else 0)"

text \<open>
  The candidate with the largest consistent count wins, the earlier one among equals;
  without any, comma.
\<close>

fun best_candidate :: "jsstring list \<Rightarrow> 16 word \<Rightarrow> 16 word list \<Rightarrow> 16 word" where
  "best_candidate ls b [] = b"
| "best_candidate ls b (c # cs) =
     best_candidate ls (if consistent_count ls b < consistent_count ls c then c else b) cs"

definition detect_delimiter :: "jsstring \<Rightarrow> 16 word" where
  "detect_delimiter text =
     (let ls = take 5 (raw_lines text);
          b = best_candidate ls 0x2C [0x3B, 0x09, 0x7C]
      in if consistent_count ls b = 0 then 0x2C else b)"

subsection \<open>Tokenizer\<close>

text \<open>
  Modelled from the spec: section 4.2. A quote at the start of a field opens a quoted
  field, in which the delimiter and line ends are content and a doubled quote is one
  quote; a line feed, alone or after a carriage return, ends a row; an empty line is a row of one empty field; what
  follows a final line end is no row; a quoted field still open at the end of the input is
  an error. The three modes are: at the start of a field, inside an unquoted field (or
  after the closing quote of a quoted one), inside a quoted field. \<open>fld\<close> is the field read so far, \<open>row\<close> the
  fields of the row read so far, \<open>rows\<close> the rows read so far.
\<close>

datatype mode = FieldStart | Unquoted | Quoted

fun tokenize ::
  "16 word \<Rightarrow> mode \<Rightarrow> jsstring \<Rightarrow> jsstring list \<Rightarrow> jsstring list list \<Rightarrow> jsstring
   \<Rightarrow> analysis_error + jsstring list list" where
  "tokenize d Quoted fld row rows [] = Inl MalformedQuotingError"
| "tokenize d Unquoted fld row rows [] = Inr (rows @ [row @ [fld]])"
| "tokenize d FieldStart fld row rows [] = Inr (if row = [] then rows else rows @ [row @ [fld]])"
| "tokenize d Quoted fld row rows (c # cs) =
     (if c = 0x22 then
        (case cs of
           [] \<Rightarrow> tokenize d Unquoted fld row rows cs
         | c' # cs' \<Rightarrow>
             if c' = 0x22 then tokenize d Quoted (fld @ [0x22]) row rows cs'
             else tokenize d Unquoted fld row rows cs)
      else tokenize d Quoted (fld @ [c]) row rows cs)"
| "tokenize d m fld row rows (c # cs) =
     (if c = 0x22 \<and> m = FieldStart then tokenize d Quoted fld row rows cs
      else if c = d then tokenize d FieldStart [] (row @ [fld]) rows cs
      else if c = 0x0A then tokenize d FieldStart [] [] (rows @ [row @ [fld]]) cs
      else if c = 0x0D \<and> take 1 cs = [0x0A]
        then tokenize d FieldStart [] [] (rows @ [row @ [fld]]) (drop 1 cs)
      else tokenize d Unquoted (fld @ [c]) row rows cs)"

subsection \<open>Sampling controller and column accumulator\<close>

text \<open>
  Modelled from the spec: sections 4.4 and 4.5. The running state of one column: the
  counts, and the analyzed values that are not null, in the order read (kept up to the
  end, as the spec proposes, since the order of the values is known only once the type is
  resolved).
\<close>

record column_acc =
  acc_total :: nat
  acc_analyzed :: nat
  acc_nulls :: nat
  acc_values :: "jsstring list"

definition empty_acc :: column_acc where
  "empty_acc = \<lparr>acc_total = 0, acc_analyzed = 0, acc_nulls = 0, acc_values = []\<rparr>"

text \<open>An empty or blank raw value is null.\<close>

definition is_null :: "jsstring \<Rightarrow> bool" where
  "is_null v = list_all is_space v"

text \<open>
  A value of the column: it counts in the total; it is analyzed unless the count of
  analyzed values has reached the cap.
\<close>

definition accumulate :: "nat option \<Rightarrow> column_acc \<Rightarrow> jsstring \<Rightarrow> column_acc" where
  "accumulate cap acc v =
     (let acc = acc\<lparr>acc_total := acc_total acc + 1\<rparr>
      in if (case cap of None \<Rightarrow> False | Some k \<Rightarrow> k \<le> acc_analyzed acc) then acc
         else
           let acc = acc\<lparr>acc_analyzed := acc_analyzed acc + 1\<rparr>
           in if is_null v then acc\<lparr>acc_nulls := acc_nulls acc + 1\<rparr>
              else acc\<lparr>acc_values := acc_values acc @ [v]\<rparr>)"

text \<open>
  One data row: the fields go to the columns by position; a column beyond the end of a
  short row gets nothing, and fields beyond the last column are dropped.
\<close>

fun feed_row :: "nat option \<Rightarrow> column_acc list \<Rightarrow> jsstring list \<Rightarrow> column_acc list" where
  "feed_row cap [] vs = []"
| "feed_row cap (acc # accs) [] = acc # accs"
| "feed_row cap (acc # accs) (v # vs) = accumulate cap acc v # feed_row cap accs vs"

subsection \<open>Finalization of a column\<close>

definition insert_new :: "jsstring list \<Rightarrow> jsstring \<Rightarrow> jsstring list" where
  "insert_new seen v = (if v \<in> set seen then seen else seen @ [v])"

text \<open>
  Modelled from the spec: sections 3 and 4.3. The distinct values, in the order of their
  first occurrence. Null values are not among them: for the values 1, blank, 3 the spec
  (section 8) counts two unique values.
\<close>

definition distinct_values :: "jsstring list \<Rightarrow> jsstring list" where
  "distinct_values vs = foldl insert_new [] vs"

definition match_count :: "recognizers \<Rightarrow> jsstring list \<Rightarrow> semantic_type \<Rightarrow> nat" where
  "match_count p vs t = length (filter (matches p t) vs)"

definition typed :: "semantic_type list" where
  "typed = [Integer, Float, Boolean, Date, DateTime, Time, Email, Url, Ip]"

text \<open>
  The type with the most matching values, the earlier one of the enumeration among
  equals (all confidences have the same denominator).
\<close>

fun dominant :: "recognizers \<Rightarrow> jsstring list \<Rightarrow> semantic_type \<Rightarrow> semantic_type list \<Rightarrow> semantic_type" where
  "dominant p vs b [] = b"
| "dominant p vs b (t # ts) =
     dominant p vs (if match_count p vs b < match_count p vs t then t else b) ts"

definition extremum :: "(jsstring \<Rightarrow> jsstring \<Rightarrow> bool) \<Rightarrow> jsstring list \<Rightarrow> jsstring option" where
  "extremum lt vs =
     (case vs of [] \<Rightarrow> None | v # ws \<Rightarrow> Some (foldl (\<lambda>m w. if lt w m then w else m) v ws))"

definition list_min :: "nat list \<Rightarrow> nat" where
  "list_min ns = (case ns of [] \<Rightarrow> 0 | n # ms \<Rightarrow> foldl min n ms)"

definition list_max :: "nat list \<Rightarrow> nat" where
  "list_max ns = foldl max 0 ns"

text \<open>
  The report of a column: the dominant type, or String when no value matches a type; its
  confidence; as subtypes the other types that match at least 5% of the values; up to
  five examples; the counts; and the extrema under the order of the dominant type.
\<close>

definition finalize :: "recognizers \<Rightarrow> jsstring \<Rightarrow> column_acc \<Rightarrow> column_report" where
  "finalize p header acc =
     (let vs = acc_values acc;
          n = length vs;
          best = dominant p vs Integer (tl typed);
          t = (if match_count p vs best = 0 then String else best);
          conf = (if t = String then (if 0 < n then Fin 1 else Fin 0)
                  else num_div (num_of_nat (match_count p vs t)) (num_of_nat n));
          subs = filter (\<lambda>u. u \<noteq> t \<and> 0 < n \<and> n \<le> 20 * match_count p vs u) typed
      in \<lparr>name = header,
          type_name = type_key t,
          type_details =
            \<lparr>confidence = conf,
             subtypes = map type_key subs,
             format_examples = take 5 (distinct_values vs)\<rparr>,
          total_count = acc_total acc,
          analyzed_count = acc_analyzed acc,
          unique_values = length (distinct_values vs),
          null_count = acc_nulls acc,
          min_value = extremum (before p t) vs,
          max_value = extremum (\<lambda>a b. before p t b a) vs,
          min_length = list_min (map length vs),
          max_length = list_max (map length vs)\<rparr>)"

subsection \<open>Analysis orchestrator\<close>

text \<open>
  Modelled from the spec: sections 4.6 and 7. The cap of a configuration: none for null,
  the number for a positive integer; anything else is an invalid configuration. The
  analysis detects the delimiter, tokenizes, takes the first row as the headers, feeds
  the data rows to the accumulators and finalizes each column; a document without a
  header row is an error.
\<close>

definition cap_of :: "sample_setting \<Rightarrow> analysis_error + nat option" where
  "cap_of c =
     (case c of
        JsNull \<Rightarrow> Inr None
      | JsNumber (Fin r) \<Rightarrow>
          if 0 < r \<and> of_int \<lfloor>r\<rfloor> = r then Inr (Some (nat \<lfloor>r\<rfloor>)) else Inl InvalidConfigurationError
      | JsNumber _ \<Rightarrow> Inl InvalidConfigurationError)"

definition analyze_text ::
  "recognizers \<Rightarrow> sample_setting \<Rightarrow> jsstring \<Rightarrow> analysis_error + analysis_report" where
  "analyze_text p config text =
     (case cap_of config of
        Inl e \<Rightarrow> Inl e
      | Inr cap \<Rightarrow>
          (case tokenize (detect_delimiter text) FieldStart [] [] [] text of
             Inl e \<Rightarrow> Inl e
           | Inr [] \<Rightarrow> Inl EmptyInputError
           | Inr (headers # data) \<Rightarrow>
               Inr \<lparr>row_count = length data,
                    column_count = length headers,
                    sample_size = cap,
                    columns =
                      map2 (finalize p) headers
                        (foldl (feed_row cap) (map (\<lambda>_. empty_acc) headers) data)\<rparr>))"



section \<open>Invariants of the page\<close>

text \<open>
  Objects are allocated in order, and an analyzer refers to a configuration that exists;
  the variable \<open>analyzer\<close> is set only once the module is initialized, and a click
  waits only when there is an analyzer; the configuration of the current analyzer agrees
  with the sampling controls.
\<close>

definition wf :: "'i page \<Rightarrow> bool" where
  "wf s \<longleftrightarrow>
     (\<forall>c. configs s c \<noteq> None \<longrightarrow> c < next_object s) \<and>
     (\<forall>a. analyzer s = Some a \<longrightarrow>
        object_id a < next_object s \<and> config_of a < next_object s \<and> configs s (config_of a) \<noteq> None)"

definition in_sync :: "'i page \<Rightarrow> bool" where
  "in_sync s \<longleftrightarrow>
     (\<exists>a. analyzer s = Some a \<and>
          configs s (config_of a)
          = Some (if toggle_checked s then JsNumber (parseInt (sample_value s)) else JsNull))"

definition ready :: "'i page \<Rightarrow> bool" where
  "ready s \<longleftrightarrow> (analyzer s = None \<or> wasm_ready s) \<and> (pending s = [] \<or> analyzer s \<noteq> None)"

text \<open>
  The counts of an accumulator: no more values analyzed than seen, and every analyzed
  value is either null or kept.
\<close>

definition acc_ok :: "column_acc \<Rightarrow> bool" where
  "acc_ok acc \<longleftrightarrow>
     acc_analyzed acc \<le> acc_total acc \<and>
     acc_nulls acc + length (acc_values acc) = acc_analyzed acc"



section \<open>Example reports\<close>

text \<open>
  The report of the document \<open>id,name\<close> / \<open>1,Alice\<close> / \<open>2,Bob\<close>.
\<close>

definition example_id :: column_report where
  "example_id = \<lparr>name = str ''id'', type_name = str ''integer'',
      type_details = \<lparr>confidence = Fin 1, subtypes = [str ''float''],
                        format_examples = [str ''1'', str ''2'']\<rparr>,
      total_count = 2, analyzed_count = 2, unique_values = 2, null_count = 0,
      min_value = Some (str ''1''), max_value = Some (str ''2''), min_length = 1, max_length = 1\<rparr>"
definition example_name :: column_report where
  "example_name = \<lparr>name = str ''name'', type_name = str ''string'',
      type_details = \<lparr>confidence = Fin 1, subtypes = [],
                        format_examples = [str ''Alice'', str ''Bob'']\<rparr>,
      total_count = 2, analyzed_count = 2, unique_values = 2, null_count = 0,
      min_value = Some (str ''Alice''), max_value = Some (str ''Bob''), min_length = 3, max_length = 5\<rparr>"
definition example_report :: analysis_report where
  "example_report = \<lparr>row_count = 2, column_count = 2, sample_size = None,
      columns = [example_id, example_name]\<rparr>"


text \<open>
  The report of a document that has only a header row, with one quoted column name that
  contains a line feed.
\<close>

definition newline_column :: column_report where
  "newline_column = \<lparr>name = str ''a'' @ [0x0A] @ str ''b'', type_name = str ''string'',
      type_details = \<lparr>confidence = Fin 0, subtypes = [], format_examples = []\<rparr>,
      total_count = 0, analyzed_count = 0, unique_values = 0, null_count = 0,
      min_value = None, max_value = None, min_length = 0, max_length = 0\<rparr>"
definition newline_report :: analysis_report where
  "newline_report = \<lparr>row_count = 0, column_count = 1, sample_size = None, columns = [newline_column]\<rparr>"



text \<open>
  A document before the script runs, three files (the second cannot be read), and an
  engine without state that fails on the empty text and returns the report above
  otherwise.
\<close>

definition blank_document :: "'i page" where
  "blank_document =
     \<lparr>wasm_ready = False, configs = Map.empty, next_object = 0, analyzer = None,
      toggle_checked = False, sample_value = [], sample_disabled = False,
      selected_file = None, file_info_text = [], file_info_display = str ''none'',
      analyze_disabled = True, results = [], download = None, pending = [], saved = []\<rparr>"

definition empty_file :: js_file where
  "empty_file = \<lparr>file_name = str ''empty.csv'', file_size = 0, file_text = Inr []\<rparr>"

definition unreadable_file :: js_file where
  "unreadable_file =
     \<lparr>file_name = str ''gone.csv'', file_size = 10,
      file_text = Inl (Thrown (Some (str ''not readable'')))\<rparr>"

definition example_file :: js_file where
  "example_file =
     \<lparr>file_name = str ''people.csv'', file_size = 22,
      file_text = Inr (str ''id,name'' @ nl @ str ''1,Alice'' @ nl @ str ''2,Bob'' @ nl)\<rparr>"

definition demo_engine :: "unit engine" where
  "demo_engine =
     \<lparr>construct = (\<lambda>_. ()),
      analyze = (\<lambda>_ text.
        (if text = [] then Inl (Thrown (Some (str ''empty input''))) else Inr example_report, ()))\<rparr>"

definition no_texts :: summary_texts where
  "no_texts = \<lparr>size_text = [], time_text = [], speed_text = []\<rparr>"

text \<open>
  Recognizers for the examples: digits are an integer and a float, nothing else is
  recognized; integers are ordered by value, other values as texts.
\<close>

definition digits_only :: recognizers where
  "digits_only =
     \<lparr>matches = (\<lambda>t v. (t = Integer \<or> t = Float) \<and> v \<noteq> [] \<and> list_all (is_digit 10) v),
      before = (\<lambda>t a b. if t = Integer then digits_value 10 a < digits_value 10 b
                         else lexordp (<) a b)\<rparr>"

section \<open>Evaluation of the helpers on small values\<close>

lemma floor_rat_numeral: "\<lfloor>numeral a / numeral b :: rat\<rfloor> = numeral a div numeral b"
  by (metis floor_divide_of_int_eq of_int_numeral)
lemmas fl_eval = ilog2_def bit_length.simps round_half_even_def floor_rat_numeral
lemma fl_0: "fl 0 = Fin 0" by (simp add: fl_def)
lemma fl_1: "fl 1 = Fin 1" unfolding fl_def Let_def by (simp add: fl_eval)
lemma fl_2: "fl 2 = Fin 2" unfolding fl_def Let_def by (simp add: fl_eval)
lemma fl_50: "fl 50 = Fin 50" unfolding fl_def Let_def by (simp add: fl_eval)
lemma fl_100: "fl 100 = Fin 100" unfolding fl_def Let_def by (simp add: fl_eval)
lemma fl_half: "fl (1 / 2) = Fin (1 / 2)" unfolding fl_def Let_def by (simp add: fl_eval)
lemma nat_toString_digit: "n < 10 \<Longrightarrow> nat_toString n = [digit n]"
  by (simp add: nat_toString_def decimal.simps)
lemma fixed_digits_1_0: "fixed_digits (Suc 0) 0 = str ''0.0''"
  unfolding fixed_digits_def Let_def by (simp add: str_def digit_def)
lemma fixed_digits_1_50: "fixed_digits (Suc 0) 50 = str ''50.0''"
  unfolding fixed_digits_def Let_def by (simp add: str_def digit_def decimal.simps floor_rat_numeral)
lemma fixed_digits_1_100: "fixed_digits (Suc 0) 100 = str ''100.0''"
  unfolding fixed_digits_def Let_def by (simp add: str_def digit_def decimal.simps floor_rat_numeral)
lemma formatConfidence_0: "formatConfidence (Fin 0) = str ''0.0%''"
  by (simp add: formatConfidence_def fl_0 fixed_digits_1_0 str_def)
lemma formatConfidence_1: "formatConfidence (Fin 1) = str ''100.0%''"
  by (simp add: formatConfidence_def fl_100 fixed_digits_1_100 str_def)
lemma formatAnalyzedValues_same: "formatAnalyzedValues n n = nat_toString n @ str '' (100%)''"
  by (simp add: formatAnalyzedValues_def)
lemma getTypeLabel_known:
  "getTypeLabel (str ''integer'') = str ''Entier''"
  "getTypeLabel (str ''float'') = str ''D'' @ [0xE9] @ str ''cimal''"
  "getTypeLabel (str ''string'') = str ''Texte''"
  by (simp_all add: getTypeLabel_def labels_def str_def)
lemma csv_row_example_id:
  "csv_row example_id = str ''id;Entier;100.0%;2 (100%);D'' @ [0xE9] @ str ''cimal;1, 2;2;2;0;1;2;1;1''"
  by (simp add: csv_row_def csv_cells_def example_id_def formatConfidence_1 formatAnalyzedValues_same
       nat_toString_digit getTypeLabel_known) (simp add: str_def digit_def)
lemma csv_row_example_name:
  "csv_row example_name = str ''name;Texte;100.0%;2 (100%);;Alice, Bob;2;2;0;Alice;Bob;3;5''"
  by (simp add: csv_row_def csv_cells_def example_name_def formatConfidence_1 formatAnalyzedValues_same
       nat_toString_digit getTypeLabel_known) (simp add: str_def digit_def)

lemma nat_toString_0: "nat_toString 0 = str ''0''"
  by (simp add: nat_toString_digit digit_def str_def)

lemma formatAnalyzedValues_0_0: "formatAnalyzedValues 0 0 = str ''0 (100%)''"
  by (simp add: formatAnalyzedValues_def nat_toString_0 str_def)

lemma csv_row_newline_column: "csv_row newline_column = str ''a'' @ [0x0A] @ str ''b;Texte;0.0%;0 (100%);;;0;0;0;;;0;0''"
  by (simp add: csv_row_def csv_cells_def newline_column_def formatConfidence_0 formatAnalyzedValues_0_0
       nat_toString_0 getTypeLabel_known) (simp add: str_def)

section \<open>Lines and fields of a text\<close>

lemma split_on_no_sep: "c \<notin> set xs \<Longrightarrow> split_on c xs = [xs]"
  by (induction xs) auto

lemma split_on_append_sep:
  "c \<notin> set xs \<Longrightarrow> split_on c (xs @ c # ys) = xs # split_on c ys"
  by (induction xs) auto

lemma split_on_join:
  "xs \<noteq> [] \<Longrightarrow> \<forall>x \<in> set xs. c \<notin> set x \<Longrightarrow> split_on c (join [c] xs) = xs"
proof (induction "[c]" xs rule: join.induct)
  case 1
  then show ?case by simp
next
  case (2 x)
  then show ?case by (simp add: split_on_no_sep)
next
  case (3 x y ys)
  then show ?case by (simp add: split_on_append_sep)
qed

lemma length_split_on: "length (split_on c xs) = Suc (length (filter (\<lambda>x. x = c) xs))"
  by (induction xs) (auto split: list.splits)

lemma header_no_nl: "0x0A \<notin> set ([0xFEFF] @ join (str '';'') csv_headers)"
  by (simp add: csv_headers_def str_def)

lemma header_fields:
  "split_on 0x3B ([0xFEFF] @ join (str '';'') csv_headers) = ([0xFEFF] @ str ''Colonne'') # tl csv_headers"
  by (simp add: csv_headers_def str_def)



section \<open>Digits of a formatted number\<close>

lemma decimal_len: "10 ^ j \<le> m \<Longrightarrow> j < length (decimal m)"
proof (induction m arbitrary: j rule: decimal.induct)
  case (1 n)
  show ?case
  proof (cases "n < 10")
    case True
    with 1(2) have "(10::nat) ^ j < 10 ^ 1" by simp
    then have "j < 1" by (rule power_less_imp_less_exp[rotated]) simp
    then show ?thesis by (subst decimal.simps) simp
  next
    case False
    show ?thesis
    proof (cases j)
      case 0 then show ?thesis by (subst decimal.simps) simp
    next
      case (Suc i)
      with 1(2) have "10 ^ i \<le> n div 10" by (simp add: less_eq_div_iff_mult_less_eq)
      with 1(1)[OF False] have "i < length (decimal (n div 10))" by simp
      with False Suc show ?thesis by (subst decimal.simps) simp
    qed
  qed
qed
lemma str_100: "str ''100'' = [49,48,48]" by (simp add: str_def)
lemma fixed_digits_has_point: "46 \<in> set (fixed_digits 1 a)"
  by (simp add: fixed_digits_def Let_def str_def)
lemma shortest_exp: "shortest a = (n, k, s) \<Longrightarrow> length (decimal (nat \<lfloor>a\<rfloor>)) \<le> n"
  unfolding shortest_def Let_def by (cases "shortest_from a (length (decimal (nat \<lfloor>a\<rfloor>))) 1 16") (simp split: if_splits)
lemma big_value_has_exponent: assumes "10 ^ 21 \<le> a" shows "101 \<in> set (int_value_toString a)"
proof -
  have "(10::int) ^ 21 \<le> \<lfloor>a\<rfloor>" using assms by (simp add: le_floor_iff)
  then have "nat ((10::int) ^ 21) \<le> nat \<lfloor>a\<rfloor>" by (rule nat_mono)
  then have "(10::nat) ^ 21 \<le> nat \<lfloor>a\<rfloor>" by (simp add: nat_power_eq)
  then have d: "21 < length (decimal (nat \<lfloor>a\<rfloor>))" by (rule decimal_len)
  obtain n k s where sh: "shortest a = (n, k, s)" by (cases "shortest a") auto
  then have "21 < n" using d shortest_exp[OF sh] by simp
  then show ?thesis using sh by (simp add: int_value_toString_def str_def)
qed
lemma toFixed_not_100: "toFixed 1 x \<noteq> str ''100''"
proof (cases x)
  case (Fin r)
  show ?thesis
  proof (cases "10 ^ 21 \<le> \<bar>r\<bar>")
    case True
    then have "101 \<in> set (toFixed 1 x)" using big_value_has_exponent[OF True] Fin by (simp add: Let_def)
    then show ?thesis by (auto simp: str_100)
  next
    case False
    then have "46 \<in> set (toFixed 1 x)" using fixed_digits_has_point[of "\<bar>r\<bar>"] Fin by (simp add: Let_def)
    then show ?thesis by (auto simp: str_100)
  qed
qed (simp_all add: str_def)

section \<open>The export\<close>

text \<open>
  C1 (as amended). \<open>exportToCSV\<close> returns the byte-order mark followed by the header
  and one row per entry of \<open>columns\<close>, in the order of the report, joined by line
  feeds. The header is fixed and has 13 fields; a row is the 13 cells of its column
  joined by semicolons, each cell computed from the fields of that column only. The
  function reads the report and returns a text; it has no other effect, and the report
  that the download button exports is the same after the export. When no row contains a
  line feed, the lines of the text are the header line and exactly one line per column.
\<close>

theorem exportToCSV_rows:
  "exportToCSV analysis =
     [0xFEFF] @ join [0x0A] (join (str '';'') csv_headers # map csv_row (columns analysis))
   \<and> length (map csv_row (columns analysis)) = length (columns analysis)
   \<and> (\<forall>i < length (columns analysis).
         map csv_row (columns analysis) ! i = join (str '';'') (csv_cells (columns analysis ! i)))
   \<and> split_on 0x3B ([0xFEFF] @ join (str '';'') csv_headers)
       = ([0xFEFF] @ str ''Colonne'') # tl csv_headers
   \<and> length csv_headers = 13
   \<and> length (csv_cells stats) = 13
   \<and> ((\<forall>c \<in> set (columns analysis). 0x0A \<notin> set (csv_row c)) \<longrightarrow>
        split_on 0x0A (exportToCSV analysis)
        = ([0xFEFF] @ join (str '';'') csv_headers) # map csv_row (columns analysis))
   \<and> download (download_click s) = download s"
proof -
  have a: "exportToCSV analysis =
     [0xFEFF] @ join [0x0A] (join (str '';'') csv_headers # map csv_row (columns analysis))"
    by (simp add: exportToCSV_def)
  have b: "\<forall>i < length (columns analysis).
         map csv_row (columns analysis) ! i = join (str '';'') (csv_cells (columns analysis ! i))"
    by (simp add: csv_row_def)
  have c: "length csv_headers = 13" by (simp add: csv_headers_def)
  have d: "length (csv_cells stats) = 13" by (simp add: csv_cells_def)
  have e: "split_on 0x0A (exportToCSV analysis)
        = ([0xFEFF] @ join (str '';'') csv_headers) # map csv_row (columns analysis)"
    if h: "\<forall>c \<in> set (columns analysis). 0x0A \<notin> set (csv_row c)"
  proof -
    let ?h = "[0xFEFF] @ join (str '';'') csv_headers"
    let ?rows = "map csv_row (columns analysis)"
    have eq: "exportToCSV analysis = join [0x0A] (?h # ?rows)"
      unfolding a by (cases ?rows) simp_all
    have "\<forall>x \<in> set (?h # ?rows). 0x0A \<notin> set x"
      using h header_no_nl by auto
    then show ?thesis unfolding eq by (intro split_on_join) simp_all
  qed
  have f: "download (download_click s) = download s"
    by (simp add: download_click_def downloadCSV_def split: option.splits)
  show ?thesis
    by (intro conjI)
       (fact a, simp, fact b, fact header_fields, fact c, fact d, (rule impI, rule e, assumption),
        fact f)
qed


theorem exportToCSV_rows_witness:
  "0x0A \<notin> set (csv_row example_id) \<and> 0x0A \<notin> set (csv_row example_name)
   \<and> split_on 0x0A (exportToCSV example_report) =
       [ [0xFEFF] @ join (str '';'') csv_headers,
        str ''id;Entier;100.0%;2 (100%);D'' @ [0xE9] @ str ''cimal;1, 2;2;2;0;1;2;1;1'',
        str ''name;Texte;100.0%;2 (100%);;Alice, Bob;2;2;0;Alice;Bob;3;5'']"
proof -
  have h: "\<forall>c \<in> set (columns example_report). 0x0A \<notin> set (csv_row c)"
    by (simp add: example_report_def csv_row_example_id csv_row_example_name str_def)
  have "split_on 0x0A (exportToCSV example_report)
        = ([0xFEFF] @ join (str '';'') csv_headers) # map csv_row (columns example_report)"
    using exportToCSV_rows [of example_report] h by blast
  with h show ?thesis
    by (simp add: example_report_def csv_row_example_id csv_row_example_name)
qed

text \<open>
  C1 as stated fails: for the column name \<open>a\<close>, line feed, \<open>b\<close> the text has three
  lines, for a report of one column.
\<close>

theorem exportToCSV_lines_counterexample:
  "length (split_on 0x0A (exportToCSV newline_report)) \<noteq> 1 + length (columns newline_report)"
  by (simp add: length_split_on exportToCSV_def newline_report_def csv_row_newline_column) (simp add: str_def csv_headers_def)




section \<open>The table and the summary\<close>

text \<open>The row of the table, written as the template of \<open>displayResults\<close> has it.\<close>

lemma html_row_template:
  \<open>html_row stats =
     concat
      [nl,
       str ''            <tr>'' @ nl,
       str ''                <td>'' @ name stats @ str ''</td>'' @ nl,
       str ''                <td>'' @ getTypeLabel (type_name stats) @ str ''</td>'' @ nl,
       str ''                <td>'' @ formatConfidence (confidence (type_details stats)) @ str ''</td>'' @ nl,
       str ''                <td>'' @ formatAnalyzedValues (analyzed_count stats) (total_count stats) @ str ''</td>'' @ nl,
       str ''                <td>'' @ subtypesHtml stats @ str ''</td>'' @ nl,
       str ''                <td>'' @ examplesHtml stats @ str ''</td>'' @ nl,
       str ''                <td>'' @ nat_toString (total_count stats) @ str ''</td>'' @ nl,
       str ''                <td>'' @ nat_toString (unique_values stats) @ str ''</td>'' @ nl,
       str ''                <td>'' @ nat_toString (null_count stats) @ str ''</td>'' @ nl,
       str ''                <td>'' @ js_or (min_value stats) (str ''-'') @ str ''</td>'' @ nl,
       str ''                <td>'' @ js_or (max_value stats) (str ''-'') @ str ''</td>'' @ nl,
       str ''                <td>'' @ nat_toString (min_length stats) @ str ''</td>'' @ nl,
       str ''                <td>'' @ nat_toString (max_length stats) @ str ''</td>'' @ nl,
       str ''            </tr>'' @ nl,
       str ''        '']\<close>
  by (simp add: html_row_def html_cells_def td_def)










section \<open>The share of analyzed values\<close>

text \<open>
  C9. \<open>formatAnalyzedValues analyzed total\<close> is the count followed by \<open>(100%)\<close>
  exactly when the two counts are equal. In that case nothing is divided: for two zero
  counts the result is \<open>0 (100%)\<close>, where the division would have given \<open>0 (NaN%)\<close>.
  When the counts differ, the percentage is \<open>(analyzed / total) * 100\<close> written by
  \<open>toFixed(1)\<close>.
\<close>

theorem formatAnalyzedValues_full_match:
  "(formatAnalyzedValues a t = nat_toString a @ str '' (100%)'' \<longleftrightarrow> a = t)
   \<and> formatAnalyzedValues 0 0 = str ''0 (100%)''
   \<and> nat_toString 0 @ str '' (''
         @ toFixed 1 (num_mult (num_div (num_of_nat 0) (num_of_nat 0)) (Fin 100)) @ str ''%)''
       = str ''0 (NaN%)''
   \<and> (a \<noteq> t \<longrightarrow>
        formatAnalyzedValues a t
        = nat_toString a @ str '' (''
            @ toFixed 1 (num_mult (num_div (num_of_nat a) (num_of_nat t)) (Fin 100)) @ str ''%)'')"
proof -
  have iff: "formatAnalyzedValues a t = nat_toString a @ str '' (100%)'' \<longleftrightarrow> a = t"
  proof
    assume h: "formatAnalyzedValues a t = nat_toString a @ str '' (100%)''"
    show "a = t"
    proof (rule ccontr)
      assume "a \<noteq> t"
      with h have "str '' ('' @ toFixed 1 (num_mult (num_div (num_of_nat a) (num_of_nat t)) (Fin 100))
                     @ str ''%)'' = str '' (100%)''"
        by (simp add: formatAnalyzedValues_def Let_def)
      then have "toFixed 1 (num_mult (num_div (num_of_nat a) (num_of_nat t)) (Fin 100)) = str ''100''"
        by (simp add: str_def)
      then show False using toFixed_not_100 by blast
    qed
  qed (simp add: formatAnalyzedValues_def)
  have nan: "nat_toString 0 @ str '' (''
         @ toFixed 1 (num_mult (num_div (num_of_nat 0) (num_of_nat 0)) (Fin 100)) @ str ''%)''
       = str ''0 (NaN%)''"
    by (simp add: nat_toString_0 num_of_nat_def fl_0 str_def)
  have pct: "a \<noteq> t \<longrightarrow>
        formatAnalyzedValues a t
        = nat_toString a @ str '' (''
            @ toFixed 1 (num_mult (num_div (num_of_nat a) (num_of_nat t)) (Fin 100)) @ str ''%)''"
    by (simp add: formatAnalyzedValues_def Let_def)
  show ?thesis
    by (intro conjI) (fact iff, fact formatAnalyzedValues_0_0, fact nan, fact pct)
qed

theorem formatAnalyzedValues_full_match_witness:
  "formatAnalyzedValues 1 2 = str ''1 (50.0%)''
   \<and> formatAnalyzedValues 1 2 \<noteq> nat_toString 1 @ str '' (100%)''
   \<and> formatAnalyzedValues 2 2 = str ''2 (100%)''"
proof -
  have ne: "(1::nat) \<noteq> 2" by simp
  have "formatAnalyzedValues 1 2
        = nat_toString 1 @ str '' (''
            @ toFixed 1 (num_mult (num_div (num_of_nat 1) (num_of_nat 2)) (Fin 100)) @ str ''%)''"
    using formatAnalyzedValues_full_match [of 1 2] ne by blast
  then have a: "formatAnalyzedValues 1 2 = str ''1 (50.0%)''"
    by (simp add: num_of_nat_def fl_1 fl_2 fl_half fl_50 fixed_digits_1_50 nat_toString_digit
          digit_def str_def)
  have b: "formatAnalyzedValues 1 2 \<noteq> nat_toString 1 @ str '' (100%)''"
    using formatAnalyzedValues_full_match [of 1 2] ne by blast
  have "formatAnalyzedValues 2 2 = nat_toString 2 @ str '' (100%)''"
    using formatAnalyzedValues_full_match [of 2 2] by blast
  then have c: "formatAnalyzedValues 2 2 = str ''2 (100%)''"
    by (simp add: nat_toString_digit digit_def str_def)
  from a b c show ?thesis by blast
qed


section \<open>The handlers of the page\<close>

lemmas handler_defs =
  toggle_change_def sample_size_change_def file_change_def analyze_click_def text_settled_def
  download_click_def downloadCSV_def displayResults_def show_error_def new_config_def
  set_sample_size_def new_analyzer_def

lemma start_simps:
  "wasm_ready (start eng ok doc) = ok"
  "toggle_checked (start eng ok doc) = False"
  "sample_value (start eng ok doc) = str ''1000''"
  "pending (start eng ok doc) = []"
  "download (start eng ok doc) = None"
  by (simp_all add: start_def setupUI_def initializeWasm_def loaded_def handler_defs Let_def)

lemma start_analyzer:
  "analyzer (start eng True doc)
   = Some \<lparr>object_id = 1, config_of = 0, instance_state = construct eng JsNull\<rparr>"
  "configs (start eng True doc) = [0 \<mapsto> JsNull]"
  "next_object (start eng True doc) = 2"
  by (simp_all add: start_def setupUI_def initializeWasm_def loaded_def handler_defs Let_def)

lemma wasm_ready_step [simp]: "wasm_ready (step eng s e) = wasm_ready s"
  by (cases e) (auto simp: handler_defs Let_def split: option.splits sum.splits prod.splits)

lemma wasm_ready_run [simp]: "wasm_ready (run eng s es) = wasm_ready s"
  unfolding run_def by (induction es arbitrary: s) simp_all

lemma in_sync_start: "in_sync (start eng True doc)"
  by (simp add: in_sync_def start_simps start_analyzer)

lemma in_sync_step: "wasm_ready s \<Longrightarrow> in_sync s \<Longrightarrow> in_sync (step eng s e)"
  by (cases e)
     (auto simp: in_sync_def handler_defs Let_def split: option.splits sum.splits prod.splits)

lemma run_Nil: "run eng s [] = s"
  by (simp add: run_def)

lemma run_snoc: "run eng s (es @ [e]) = step eng (run eng s es) e"
  by (simp add: run_def)

lemma run_append: "run eng s (es @ es') = run eng (run eng s es) es'"
  by (simp add: run_def)

lemma in_sync_run: "wasm_ready s \<Longrightarrow> in_sync s \<Longrightarrow> in_sync (run eng s es)"
  by (induction es rule: rev_induct) (simp_all add: run_Nil run_snoc in_sync_step)

lemma wf_start: "wf (start eng ok doc)"
  by (cases ok)
     (simp_all add: wf_def start_def setupUI_def initializeWasm_def loaded_def handler_defs Let_def)

lemma wf_step: "wf s \<Longrightarrow> wf (step eng s e)"
  by (cases e)
     (auto simp: wf_def handler_defs Let_def less_Suc_eq
           split: option.splits sum.splits prod.splits if_splits)

lemma configs_step: "wf s \<Longrightarrow> c < next_object s \<Longrightarrow> configs (step eng s e) c = configs s c"
  by (cases e)
     (auto simp: wf_def handler_defs Let_def split: option.splits sum.splits prod.splits)

lemma next_object_step: "next_object s \<le> next_object (step eng s e)"
  by (cases e)
     (auto simp: handler_defs Let_def split: option.splits sum.splits prod.splits)

lemma wf_run: "wf s \<Longrightarrow> wf (run eng s es)"
  by (induction es rule: rev_induct) (simp_all add: run_Nil run_snoc wf_step)

lemma next_object_run: "next_object s \<le> next_object (run eng s es)"
proof (induction es rule: rev_induct)
  case Nil
  then show ?case by (simp add: run_Nil)
next
  case (snoc e es)
  then show ?case
    using next_object_step [of "run eng s es" eng e] by (simp add: run_snoc)
qed

lemma configs_run:
  assumes "wf s" and "c < next_object s"
  shows "configs (run eng s es) c = configs s c"
proof (induction es rule: rev_induct)
  case Nil
  then show ?case by (simp add: run_Nil)
next
  case (snoc e es)
  have "c < next_object (run eng s es)"
    using assms(2) next_object_run [of s eng es] by simp
  then have "configs (step eng (run eng s es) e) c = configs (run eng s es) c"
    using wf_run [OF assms(1)] by (rule configs_step [rotated])
  with snoc show ?case by (simp add: run_snoc)
qed

lemma ready_start: "ready (start eng ok doc)"
  by (cases ok)
     (simp_all add: ready_def start_def setupUI_def initializeWasm_def loaded_def handler_defs Let_def)

lemma ready_step: "ready s \<Longrightarrow> ready (step eng s e)"
  by (cases e)
     (auto simp: ready_def handler_defs Let_def
           split: option.splits sum.splits prod.splits if_splits)

lemma ready_run: "ready s \<Longrightarrow> ready (run eng s es)"
  by (induction es rule: rev_induct) (simp_all add: run_Nil run_snoc ready_step)

lemma settings_change_fresh:
  assumes "wasm_ready s" and "wf s" and "analyzer s = Some a"
    and "e = ToggleChange \<or> (\<exists>v. e = SampleSizeChange v) \<and> toggle_checked s"
  shows "\<exists>a'. analyzer (step eng s e) = Some a' \<and> object_id a' \<noteq> object_id a
               \<and> config_of a' \<noteq> config_of a \<and> configs s (config_of a') = None"
proof -
  have fresh: "configs s (next_object s) = None"
    using assms(2) by (auto simp: wf_def)
  have old: "object_id a < next_object s" "config_of a < next_object s"
    using assms(2,3) by (auto simp: wf_def)
  from assms(4) show ?thesis
  proof
    assume "e = ToggleChange"
    then show ?thesis using assms(1) fresh old
      by (auto simp: handler_defs Let_def)
  next
    assume "(\<exists>v. e = SampleSizeChange v) \<and> toggle_checked s"
    then show ?thesis using assms(1) fresh old
      by (auto simp: handler_defs Let_def)
  qed
qed

lemma fl_500: "fl 500 = Fin 500" unfolding fl_def Let_def by (simp add: fl_eval)
lemma fl_1000: "fl 1000 = Fin 1000" unfolding fl_def Let_def by (simp add: fl_eval)

lemma parseInt_1000: "parseInt (str ''1000'') = Fin 1000"
  unfolding parseInt_def Let_def
  by (simp add: str_def is_space_def is_digit_def digit_value_def digits_value_def fl_1000)

lemma parseInt_500: "parseInt (str ''500'') = Fin 500"
  unfolding parseInt_def Let_def
  by (simp add: str_def is_space_def is_digit_def digit_value_def digits_value_def fl_500)

lemmas run_eval =
  run_def start_def setupUI_def initializeWasm_def loaded_def handler_defs Let_def
  blank_document_def demo_engine_def


text \<open>
  C2. Once the module is initialized: at the start of the application the sampling box
  is unchecked and the analyzer is the one constructed from a configuration whose
  \<open>sample_size\<close> is null. After any sequence of events, the configuration that the
  current analyzer was constructed from has \<open>sample_size\<close> null while sampling is off,
  and the number that \<open>parseInt\<close> reads from the number field while sampling is on.
\<close>

theorem analyzer_config_follows_sampling_controls:
  "(\<exists>a. analyzer (start eng True doc) = Some a
        \<and> \<not> toggle_checked (start eng True doc)
        \<and> configs (start eng True doc) (config_of a) = Some JsNull)
   \<and> (\<exists>a. analyzer (run eng (start eng True doc) es) = Some a
        \<and> configs (run eng (start eng True doc) es) (config_of a)
          = Some (if toggle_checked (run eng (start eng True doc) es)
                  then JsNumber (parseInt (sample_value (run eng (start eng True doc) es)))
                  else JsNull))"
proof -
  have "in_sync (run eng (start eng True doc) es)"
    by (rule in_sync_run) (simp_all add: start_simps in_sync_start)
  then show ?thesis
    by (simp add: in_sync_def start_simps start_analyzer)
qed

theorem analyzer_config_follows_sampling_controls_witness:
  "(\<exists>a. analyzer (run demo_engine (start demo_engine True blank_document) [ToggleChange]) = Some a
        \<and> configs (run demo_engine (start demo_engine True blank_document) [ToggleChange])
             (config_of a) = Some (JsNumber (Fin 1000)))
   \<and> (\<exists>a. analyzer (run demo_engine (start demo_engine True blank_document)
                       [ToggleChange, SampleSizeChange (str ''500'')]) = Some a
        \<and> configs (run demo_engine (start demo_engine True blank_document)
                     [ToggleChange, SampleSizeChange (str ''500'')])
             (config_of a) = Some (JsNumber (Fin 500)))
   \<and> (\<exists>a. analyzer (run demo_engine (start demo_engine True blank_document)
                       [ToggleChange, ToggleChange]) = Some a
        \<and> configs (run demo_engine (start demo_engine True blank_document)
                     [ToggleChange, ToggleChange])
             (config_of a) = Some JsNull)"
proof -
  have a: "toggle_checked (run demo_engine (start demo_engine True blank_document) [ToggleChange])"
    "sample_value (run demo_engine (start demo_engine True blank_document) [ToggleChange])
     = str ''1000''"
    by (simp_all add: run_eval)
  have b: "toggle_checked (run demo_engine (start demo_engine True blank_document)
             [ToggleChange, SampleSizeChange (str ''500'')])"
    "sample_value (run demo_engine (start demo_engine True blank_document)
             [ToggleChange, SampleSizeChange (str ''500'')]) = str ''500''"
    by (simp_all add: run_eval)
  have c: "\<not> toggle_checked (run demo_engine (start demo_engine True blank_document)
             [ToggleChange, ToggleChange])"
    by (simp add: run_eval)
  show ?thesis
    using analyzer_config_follows_sampling_controls
            [of demo_engine blank_document "[ToggleChange]"]
          analyzer_config_follows_sampling_controls
            [of demo_engine blank_document "[ToggleChange, SampleSizeChange (str ''500'')]"]
          analyzer_config_follows_sampling_controls
            [of demo_engine blank_document "[ToggleChange, ToggleChange]"]
    by (simp add: a b c parseInt_1000 parseInt_500)
qed


text \<open>
  C3. Once an analyzer is constructed, the configuration bound to it keeps its contents
  under every later sequence of events. A change of the sampling settings (a flip of the
  box, or a new value of the number field while the box is checked) puts a new analyzer
  in place of the old one, constructed from a configuration that did not exist before.
\<close>

theorem config_of_analyzer_never_mutated:
  "analyzer (run eng (start eng ok doc) es) = Some a \<Longrightarrow>
     configs (run eng (start eng ok doc) (es @ es')) (config_of a)
     = configs (run eng (start eng ok doc) es) (config_of a)
     \<and> configs (run eng (start eng ok doc) es) (config_of a) \<noteq> None
     \<and> (e = ToggleChange
          \<or> (\<exists>v. e = SampleSizeChange v) \<and> toggle_checked (run eng (start eng ok doc) es) \<longrightarrow>
        (\<exists>a'. analyzer (run eng (start eng ok doc) (es @ [e])) = Some a'
              \<and> object_id a' \<noteq> object_id a
              \<and> config_of a' \<noteq> config_of a
              \<and> configs (run eng (start eng ok doc) es) (config_of a') = None))"
proof -
  let ?s = "run eng (start eng ok doc) es"
  assume a: "analyzer ?s = Some a"
  have wf: "wf ?s" by (rule wf_run) (rule wf_start)
  have "ready ?s" by (rule ready_run) (rule ready_start)
  with a have rdy: "wasm_ready ?s" by (simp add: ready_def)
  have lt: "config_of a < next_object ?s" and ex: "configs ?s (config_of a) \<noteq> None"
    using wf a by (auto simp: wf_def)
  have keep: "configs (run eng (start eng ok doc) (es @ es')) (config_of a) = configs ?s (config_of a)"
    unfolding run_append by (rule configs_run [OF wf lt])
  have new: "e = ToggleChange \<or> (\<exists>v. e = SampleSizeChange v) \<and> toggle_checked ?s \<longrightarrow>
        (\<exists>a'. analyzer (run eng (start eng ok doc) (es @ [e])) = Some a'
              \<and> object_id a' \<noteq> object_id a
              \<and> config_of a' \<noteq> config_of a
              \<and> configs ?s (config_of a') = None)"
    unfolding run_snoc using settings_change_fresh [OF rdy wf a] by blast
  from keep ex new show ?thesis by blast
qed


theorem config_of_analyzer_never_mutated_witness:
  "analyzer (run demo_engine (start demo_engine True blank_document) [])
   = Some \<lparr>object_id = 1, config_of = 0, instance_state = ()\<rparr>
   \<and> configs (run demo_engine (start demo_engine True blank_document)
               [ToggleChange, SampleSizeChange (str ''500''), ToggleChange]) 0 = Some JsNull
   \<and> (\<exists>a'. analyzer (run demo_engine (start demo_engine True blank_document) [ToggleChange])
             = Some a' \<and> object_id a' \<noteq> 1 \<and> config_of a' \<noteq> 0)"
proof -
  have h: "analyzer (run demo_engine (start demo_engine True blank_document) [])
           = Some \<lparr>object_id = 1, config_of = 0, instance_state = ()\<rparr>"
    by (simp add: run_eval)
  have c: "configs (run demo_engine (start demo_engine True blank_document) []) 0 = Some JsNull"
    by (simp add: run_eval)
  show ?thesis
    using config_of_analyzer_never_mutated
            [OF h, of "[ToggleChange, SampleSizeChange (str ''500''), ToggleChange]" ToggleChange]
          h c
    by auto
qed


text \<open>
  C4. When the text of a waiting file settles, the analyze button is enabled again,
  whatever happens. If reading the file or \<open>analyze\<close> throws, the results area holds
  the error message with the \<open>message\<close> of the thrown value and nothing else, and there
  is no report to download; the table is rendered only when \<open>analyze\<close> returns a
  report.
\<close>

theorem analysis_failure_shows_only_the_message:
  \<open>i < length (pending (run eng (start eng ok doc) es)) \<Longrightarrow>
     \<not> analyze_disabled (text_settled eng i texts (run eng (start eng ok doc) es))
     \<and> (file_text (pending (run eng (start eng ok doc) es) ! i) = Inl error \<longrightarrow>
          results (text_settled eng i texts (run eng (start eng ok doc) es)) = error_html error
          \<and> download (text_settled eng i texts (run eng (start eng ok doc) es)) = None)
     \<and> (file_text (pending (run eng (start eng ok doc) es) ! i) = Inr content \<longrightarrow>
        (\<exists>a. analyzer (run eng (start eng ok doc) es) = Some a
           \<and> (fst (analyze eng (instance_state a) content) = Inl error \<longrightarrow>
                results (text_settled eng i texts (run eng (start eng ok doc) es)) = error_html error
                \<and> download (text_settled eng i texts (run eng (start eng ok doc) es)) = None)
           \<and> (fst (analyze eng (instance_state a) content) = Inr analysis \<longrightarrow>
                results (text_settled eng i texts (run eng (start eng ok doc) es))
                = results_html texts analysis)))
     \<and> error_html (Thrown (Some m))
       = str ''<div class="error">Erreur lors de l'analyse: '' @ m @ str ''</div>''\<close>
proof -
  let ?s = "run eng (start eng ok doc) es"
  assume i: "i < length (pending ?s)"
  have "ready ?s" by (rule ready_run) (rule ready_start)
  with i obtain a where a: "analyzer ?s = Some a" by (auto simp: ready_def)
  have 1: "\<not> analyze_disabled (text_settled eng i texts ?s)"
    using i by (simp add: text_settled_def Let_def)
  have 2: "file_text (pending ?s ! i) = Inr content \<longrightarrow>
        (\<exists>a. analyzer ?s = Some a
           \<and> (fst (analyze eng (instance_state a) content) = Inl error \<longrightarrow>
                results (text_settled eng i texts ?s) = error_html error
                \<and> download (text_settled eng i texts ?s) = None)
           \<and> (fst (analyze eng (instance_state a) content) = Inr analysis \<longrightarrow>
                results (text_settled eng i texts ?s) = results_html texts analysis))"
    using i a
    by (auto simp: text_settled_def Let_def show_error_def displayResults_def
             split: prod.splits sum.splits)
  have 4: "file_text (pending ?s ! i) = Inl error \<longrightarrow>
          results (text_settled eng i texts ?s) = error_html error
          \<and> download (text_settled eng i texts ?s) = None"
    using i by (auto simp: text_settled_def Let_def show_error_def)
  have 3: \<open>error_html (Thrown (Some m))
       = str ''<div class="error">Erreur lors de l'analyse: '' @ m @ str ''</div>''\<close>
    by (simp add: error_html_def message_text_def)
  from 1 2 3 4 show ?thesis by blast
qed

theorem analysis_failure_shows_only_the_message_witness:
  \<open>results (text_settled demo_engine 0 no_texts
       (run demo_engine (start demo_engine True blank_document)
          [FileChange (Some empty_file), AnalyzeClick]))
   = str ''<div class="error">Erreur lors de l'analyse: empty input</div>''
   \<and> download (text_settled demo_engine 0 no_texts
       (run demo_engine (start demo_engine True blank_document)
          [FileChange (Some empty_file), AnalyzeClick])) = None
   \<and> \<not> analyze_disabled (text_settled demo_engine 0 no_texts
       (run demo_engine (start demo_engine True blank_document)
          [FileChange (Some empty_file), AnalyzeClick]))
   \<and> results (text_settled demo_engine 0 no_texts
       (run demo_engine (start demo_engine True blank_document)
          [FileChange (Some unreadable_file), AnalyzeClick]))
     = str ''<div class="error">Erreur lors de l'analyse: not readable</div>''
   \<and> results (text_settled demo_engine 0 no_texts
       (run demo_engine (start demo_engine True blank_document)
          [FileChange (Some example_file), AnalyzeClick]))
     = results_html no_texts example_report\<close>
proof -
  let ?s = "run demo_engine (start demo_engine True blank_document)
              [FileChange (Some empty_file), AnalyzeClick]"
  let ?u = "run demo_engine (start demo_engine True blank_document)
              [FileChange (Some unreadable_file), AnalyzeClick]"
  let ?v = "run demo_engine (start demo_engine True blank_document)
              [FileChange (Some example_file), AnalyzeClick]"
  have p: "pending ?s = [empty_file]" "pending ?u = [unreadable_file]"
    "pending ?v = [example_file]"
    by (simp_all add: run_eval)
  have i: "0 < length (pending ?s)" "0 < length (pending ?u)" "0 < length (pending ?v)"
    by (simp_all add: p)
  have t: "file_text (pending ?s ! 0) = Inr []"
    by (subst p) (simp add: empty_file_def)
  have tu: "file_text (pending ?u ! 0) = Inl (Thrown (Some (str ''not readable'')))"
    by (subst p) (simp add: unreadable_file_def)
  have tv: "file_text (pending ?v ! 0)
            = Inr (str ''id,name'' @ nl @ str ''1,Alice'' @ nl @ str ''2,Bob'' @ nl)"
    by (subst p) (simp add: example_file_def)
  have f: "fst (analyze demo_engine x []) = Inl (Thrown (Some (str ''empty input'')))" for x
    by (simp add: demo_engine_def)
  have g: "fst (analyze demo_engine x
                  (str ''id,name'' @ nl @ str ''1,Alice'' @ nl @ str ''2,Bob'' @ nl))
           = Inr example_report" for x
    by (simp add: demo_engine_def str_def)
  have m: \<open>error_html (Thrown (Some (str ''empty input'')))
           = str ''<div class="error">Erreur lors de l'analyse: empty input</div>''\<close>
    \<open>error_html (Thrown (Some (str ''not readable'')))
           = str ''<div class="error">Erreur lors de l'analyse: not readable</div>''\<close>
    by (simp_all add: error_html_def message_text_def str_def)
  have a: \<open>results (text_settled demo_engine 0 no_texts ?s)
           = str ''<div class="error">Erreur lors de l'analyse: empty input</div>''
         \<and> download (text_settled demo_engine 0 no_texts ?s) = None
         \<and> \<not> analyze_disabled (text_settled demo_engine 0 no_texts ?s)\<close>
    using analysis_failure_shows_only_the_message
            [OF i(1), where texts = no_texts and content = "[]"
               and error = "Thrown (Some (str ''empty input''))"] t f m(1)
    by auto
  have b: \<open>results (text_settled demo_engine 0 no_texts ?u)
           = str ''<div class="error">Erreur lors de l'analyse: not readable</div>''\<close>
    using analysis_failure_shows_only_the_message
            [OF i(2), where texts = no_texts
               and error = "Thrown (Some (str ''not readable''))"] tu m(2)
    by auto
  have c: "results (text_settled demo_engine 0 no_texts ?v) = results_html no_texts example_report"
    using analysis_failure_shows_only_the_message
            [OF i(3), where texts = no_texts
               and content = "str ''id,name'' @ nl @ str ''1,Alice'' @ nl @ str ''2,Bob'' @ nl"
               and analysis = example_report] tv g
    by auto
  from a b c show ?thesis by blast
qed

section \<open>The counts of a report\<close>

lemma acc_ok_empty: "acc_ok empty_acc"
  by (simp add: acc_ok_def empty_acc_def)

lemma acc_ok_accumulate: "acc_ok acc \<Longrightarrow> acc_ok (accumulate cap acc v)"
  by (auto simp: acc_ok_def accumulate_def Let_def split: option.splits)

lemma acc_ok_feed_row: "list_all acc_ok accs \<Longrightarrow> list_all acc_ok (feed_row cap accs vs)"
  by (induction cap accs vs rule: feed_row.induct) (simp_all add: acc_ok_accumulate)

lemma acc_ok_rows: "list_all acc_ok accs \<Longrightarrow> list_all acc_ok (foldl (feed_row cap) accs rows)"
  by (induction rows arbitrary: accs) (simp_all add: acc_ok_feed_row)

lemma length_insert_new: "length (foldl insert_new seen vs) \<le> length seen + length vs"
proof (induction vs arbitrary: seen)
  case Nil
  then show ?case by simp
next
  case (Cons v vs)
  have "length (insert_new seen v) \<le> Suc (length seen)"
    by (simp add: insert_new_def)
  with Cons [of "insert_new seen v"] show ?case by simp
qed

lemma length_distinct_values: "length (distinct_values vs) \<le> length vs"
  using length_insert_new [of "[]" vs] by (simp add: distinct_values_def)

lemma finalize_counts:
  assumes "acc_ok acc"
  shows "analyzed_count (finalize p h acc) \<le> total_count (finalize p h acc)
         \<and> unique_values (finalize p h acc) \<le> analyzed_count (finalize p h acc)
         \<and> null_count (finalize p h acc) \<le> analyzed_count (finalize p h acc)"
proof -
  have "length (distinct_values (acc_values acc)) \<le> acc_analyzed acc"
    using length_distinct_values [of "acc_values acc"] assms by (simp add: acc_ok_def)
  then show ?thesis using assms by (simp add: finalize_def Let_def acc_ok_def)
qed

lemma finalize_all:
  assumes "list_all acc_ok accs" and "c \<in> set (map2 (finalize p) hs accs)"
  shows "analyzed_count c \<le> total_count c \<and> unique_values c \<le> analyzed_count c
         \<and> null_count c \<le> analyzed_count c"
proof -
  from assms(2) obtain h acc where "acc \<in> set accs" and c: "c = finalize p h acc"
    by (auto dest: set_zip_rightD)
  with assms(1) have "acc_ok acc" by (simp add: list_all_iff)
  then show ?thesis unfolding c by (rule finalize_counts)
qed

lemma tokenize_example:
  "tokenize 0x2C FieldStart [] [] [] (str ''a'' @ nl @ str ''1'' @ nl @ nl @ str ''3'' @ nl)
   = Inr [ [str ''a''], [str ''1''], [ []], [str ''3'']]"
  by (simp add: nl_def str_def)

lemma detect_example:
  "detect_delimiter (str ''a'' @ nl @ str ''1'' @ nl @ nl @ str ''3'' @ nl) = 0x2C"
  by (simp add: detect_delimiter_def raw_lines_def consistent_count_def Let_def nl_def str_def)


text \<open>
  C7. For every document and configuration for which the engine returns a report, every
  column of the report has \<open>analyzed_count \<le> total_count\<close>,
  \<open>unique_values \<le> analyzed_count\<close> and \<open>null_count \<le> analyzed_count\<close>.
\<close>

theorem report_counts_bounded:
  "analyze_text p config text = Inr report \<Longrightarrow>
     \<forall>c \<in> set (columns report).
       analyzed_count c \<le> total_count c
       \<and> unique_values c \<le> analyzed_count c
       \<and> null_count c \<le> analyzed_count c"
proof
  fix c
  assume r: "analyze_text p config text = Inr report" and c: "c \<in> set (columns report)"
  from r obtain cap headers data where
    cols: "columns report =
       map2 (finalize p) headers (foldl (feed_row cap) (map (\<lambda>_. empty_acc) headers) data)"
    by (auto simp: analyze_text_def split: sum.splits list.splits)
  have "list_all acc_ok (map (\<lambda>_. empty_acc) headers)"
    by (simp add: list_all_iff acc_ok_empty)
  then have "list_all acc_ok (foldl (feed_row cap) (map (\<lambda>_. empty_acc) headers) data)"
    by (rule acc_ok_rows)
  then show "analyzed_count c \<le> total_count c \<and> unique_values c \<le> analyzed_count c
         \<and> null_count c \<le> analyzed_count c"
    using c unfolding cols by (rule finalize_all)
qed


theorem report_counts_bounded_witness:
  "\<exists>r. analyze_text digits_only (JsNumber (Fin 2))
          (str ''a'' @ nl @ str ''1'' @ nl @ nl @ str ''3'' @ nl) = Inr r
      \<and> map total_count (columns r) = [3]
      \<and> map analyzed_count (columns r) = [2]
      \<and> map unique_values (columns r) = [1]
      \<and> map null_count (columns r) = [1]
      \<and> list_all (\<lambda>c. analyzed_count c \<le> total_count c
                     \<and> unique_values c \<le> analyzed_count c
                     \<and> null_count c \<le> analyzed_count c) (columns r)"
proof -
  let ?text = "str ''a'' @ nl @ str ''1'' @ nl @ nl @ str ''3'' @ nl"
  have cap: "cap_of (JsNumber (Fin 2)) = Inr (Some 2)"
    by (simp add: cap_of_def)
  define r where "r = \<lparr>row_count = 3, column_count = 1, sample_size = Some 2,
      columns = map2 (finalize digits_only) [str ''a'']
                  (foldl (feed_row (Some 2)) [empty_acc] [ [str ''1''], [ []], [str ''3'']])\<rparr>"
  have r: "analyze_text digits_only (JsNumber (Fin 2)) ?text = Inr r"
    by (simp add: analyze_text_def cap detect_example tokenize_example r_def)
  have counts: "map total_count (columns r) = [3]" "map analyzed_count (columns r) = [2]"
    "map unique_values (columns r) = [1]" "map null_count (columns r) = [1]"
    by (simp_all add: r_def accumulate_def empty_acc_def is_null_def is_space_def finalize_def
          distinct_values_def insert_new_def Let_def str_def)
  from report_counts_bounded [OF r] have all:
    "list_all (\<lambda>c. analyzed_count c \<le> total_count c
                     \<and> unique_values c \<le> analyzed_count c
                     \<and> null_count c \<le> analyzed_count c) (columns r)"
    by (simp add: list_all_iff)
  show ?thesis
    by (rule exI [of _ r]) (intro conjI r counts all)
qed

section \<open>The analyzer shared by the analyses\<close>











end
